theory Spec2Isabelle
  imports Complex_Main
begin

section \<open>Data model\<close>

text \<open>
  Identifiers are UUIDs and timestamps are timezone-naive UTC instants; both are
  modelled by numbers, since the code only compares them.
\<close>

type_synonym uuid = nat
type_synonym timestamp = int

text \<open>
  Every exception the modelled code raises or lets through is a value.
  \<open>UnboundLocalError\<close> is Python's error for reading a local variable that was never
  assigned, \<open>AttributeError\<close> its error for reading an attribute an object does not
  have. \<open>DriverError\<close> stands for a statement that the database driver rejects.
  \<open>ForbiddenException\<close> is the 403 outcome the user endpoints declare.
\<close>

datatype error =
    SerializationError
  | UserAlreadyExists
  | TooManyNewcomersWithSameEmail
  | TokenNotFound
  | UserNotExists
  | NotFoundException
  | ForbiddenException
  | UnboundLocalError
  | AttributeError
  | DriverError

datatype UserRole = user | admin

text \<open>\<open>NewcomerRegistered\<close>: the registration input, as \<open>_insert_newcomer\<close> reads it.\<close>

record NewcomerRegistered =
  reg_name :: string
  reg_email :: string
  reg_password :: string

text \<open>\<open>Newcomer\<close>: the columns the insert into \<open>newcomers\<close> returns.\<close>

record Newcomer =
  newcomer_user_id :: uuid
  newcomer_name :: string
  newcomer_email :: string
  newcomer_created_at :: timestamp

text \<open>\<open>User\<close>: the columns the insert into \<open>users\<close> returns.\<close>

record User =
  user_id :: uuid
  name :: string
  email :: string
  created_at :: timestamp
  verified_at :: timestamp
  role :: UserRole

text \<open>\<open>RegistrationToken\<close> of \<open>models/token.py\<close> (\<open>Token\<close> plus \<open>user_id\<close>).\<close>

record RegistrationToken =
  token :: string
  rt_created_at :: timestamp
  expired_at :: timestamp
  rt_user_id :: uuid

text \<open>Rows of the tables \<open>newcomers\<close> and \<open>users\<close>, with the columns the queries name.\<close>

record newcomers_row =
  n_user_id :: uuid
  n_name :: string
  n_email :: string
  n_password :: string
  n_created_at :: timestamp

record users_row =
  u_user_id :: uuid
  u_name :: string
  u_email :: string
  u_password :: string
  u_created_at :: timestamp
  u_verified_at :: timestamp
  u_role :: UserRole

record database =
  users :: "users_row list"
  newcomers :: "newcomers_row list"
  registration_tokens :: "RegistrationToken list"

text \<open>
  What a connection reaches: the tables, the clock behind \<open>utc_now()\<close> and the source
  behind \<open>uuid4()\<close>. The \<open>k\<close>-th call of \<open>utc_now()\<close> reads \<open>clock k\<close>, the \<open>k\<close>-th
  call of \<open>uuid4()\<close> draws \<open>uuids k\<close>; the counters say how many calls were made.
\<close>

record world =
  db :: database
  clock :: "nat \<Rightarrow> timestamp"
  utc_now_calls :: nat
  uuids :: "nat \<Rightarrow> uuid"
  uuid4_calls :: nat

definition utc_now :: "world \<Rightarrow> timestamp \<times> world" where
  "utc_now w = (clock w (utc_now_calls w), w\<lparr>utc_now_calls := Suc (utc_now_calls w)\<rparr>)"

definition uuid4 :: "world \<Rightarrow> uuid \<times> world" where
  "uuid4 w = (uuids w (uuid4_calls w), w\<lparr>uuid4_calls := Suc (uuid4_calls w)\<rparr>)"

text \<open>
  \<open>DBService\<close>: the configuration fields. The two intervals are Python floats; the
  model keeps their type open and only uses its multiplication.
\<close>

record 'f DBService =
  max_newcomers_with_same_email :: int
  n_transaction_retries :: int
  transaction_retry_interval_first :: 'f
  transaction_retry_interval_factor :: 'f

text \<open>
  What the executor does besides touching the database, in order: \<open>Transaction\<close> is
  one \<open>conn.transaction(isolation="serializable")\<close> block opened with the unit of
  work awaited inside it, \<open>Sleep i\<close> is one \<open>asyncio.sleep(i)\<close>.
\<close>

datatype 'f event = Transaction | Sleep 'f

record 'f runtime =
  conn :: world
  events :: "'f event list"

section \<open>The retrying transaction executor\<close>

text \<open>
  \<open>async with conn.transaction(...)\<close>: the block commits when its body returns and
  rolls the tables back when the body raises. Clock readings and drawn identifiers are
  not undone by a rollback.
\<close>

definition transaction ::
  "(world \<Rightarrow> (error + 'a) \<times> world) \<Rightarrow> world \<Rightarrow> (error + 'a) \<times> world" where
  "transaction body w =
     (case body w of
        (Inr result, w') \<Rightarrow> (Inr result, w')
      | (Inl e, w') \<Rightarrow> (Inl e, w'\<lparr>db := db w\<rparr>))"

definition asyncio_sleep :: "'f \<Rightarrow> 'f runtime \<Rightarrow> 'f runtime" where
  "asyncio_sleep interval rt = rt\<lparr>events := events rt @ [Sleep interval]\<rparr>"

text \<open>Python's \<open>range(n)\<close>: empty when \<open>n \<le> 0\<close>.\<close>

definition range_py :: "int \<Rightarrow> int list" where
  "range_py n = [0..n - 1]"

text \<open>
  The \<open>for attempt in range(...)\<close> loop of \<open>execute_serializable_transaction\<close>, by
  recursion on the attempts still to make. \<open>result\<close> is assigned only right before
  \<open>break\<close>, so leaving the loop by \<open>break\<close> returns it, and running out of attempts
  reaches \<open>return result\<close> with \<open>result\<close> unassigned.
\<close>

fun retry_loop ::
  "'f::times DBService \<Rightarrow> (world \<Rightarrow> (error + 'a) \<times> world) \<Rightarrow> int list \<Rightarrow> 'f \<Rightarrow>
     'f runtime \<Rightarrow> (error + 'a) \<times> 'f runtime" where
  "retry_loop self func [] interval rt = (Inl UnboundLocalError, rt)"
| "retry_loop self func (attempt # rest) interval rt =
     (case transaction func (conn rt) of
        (outcome, w') \<Rightarrow>
          (let rt' = \<lparr>conn = w', events = events rt @ [Transaction]\<rparr> in
           case outcome of
             Inr result \<Rightarrow> (Inr result, rt')
           | Inl e \<Rightarrow>
               if e = SerializationError then
                 if attempt = n_transaction_retries self - 1 then (Inl e, rt')
                 else retry_loop self func rest
                        (interval * transaction_retry_interval_factor self)
                        (asyncio_sleep interval rt')
               else (Inl e, rt')))"

definition execute_serializable_transaction ::
  "'f::times DBService \<Rightarrow> (world \<Rightarrow> (error + 'a) \<times> world) \<Rightarrow> 'f runtime \<Rightarrow>
     (error + 'a) \<times> 'f runtime" where
  "execute_serializable_transaction self func rt =
     retry_loop self func (range_py (n_transaction_retries self))
       (transaction_retry_interval_first self) rt"

subsection \<open>Describing a run of the executor\<close>

text \<open>
  The interval in force at attempt \<open>k\<close> (counted from 0): the first interval
  multiplied \<open>k\<close> times by the factor.
\<close>

definition interval_of :: "'f::times DBService \<Rightarrow> nat \<Rightarrow> 'f" where
  "interval_of self k =
     ((\<lambda>i. i * transaction_retry_interval_factor self) ^^ k)
       (transaction_retry_interval_first self)"

text \<open>
  The state in which attempt \<open>k\<close> starts when every earlier attempt ended in a
  serialization conflict: each of them ran in a transaction and was followed by a sleep.
\<close>

fun attempt_start ::
  "'f::times DBService \<Rightarrow> (world \<Rightarrow> (error + 'a) \<times> world) \<Rightarrow> 'f runtime \<Rightarrow> nat \<Rightarrow> 'f runtime" where
  "attempt_start self func rt 0 = rt"
| "attempt_start self func rt (Suc k) =
     asyncio_sleep (interval_of self k)
       \<lparr>conn = snd (transaction func (conn (attempt_start self func rt k))),
        events = events (attempt_start self func rt k) @ [Transaction]\<rparr>"





section \<open>Repository queries\<close>

text \<open>
  Names: the private methods \<open>_count_users_by_email\<close>, \<open>_count_newcomers_by_email\<close>,
  \<open>_insert_newcomer\<close> and \<open>_get_newcomer_by_token\<close> drop the leading underscore;
  \<open>_create_newcomer\<close> and \<open>_verify_newcomer\<close>, the units of work, are
  \<open>create_newcomer_tx\<close> and \<open>verify_newcomer_tx\<close>.
\<close>

definition count_users_by_email :: "world \<Rightarrow> string \<Rightarrow> int" where
  "count_users_by_email w e = int (length (filter (\<lambda>u. u_email u = e) (users (db w))))"

definition count_newcomers_by_email :: "world \<Rightarrow> string \<Rightarrow> int" where
  "count_newcomers_by_email w e =
     int (length (filter (\<lambda>n. n_email n = e) (newcomers (db w))))"

text \<open>
  \<open>_insert_newcomer\<close>: the arguments \<open>uuid4()\<close> and \<open>utc_now()\<close> are evaluated in
  this order, the row is appended, and \<open>RETURNING\<close> gives the four public columns.
\<close>

definition insert_newcomer :: "world \<Rightarrow> NewcomerRegistered \<Rightarrow> (error + Newcomer) \<times> world" where
  "insert_newcomer w newcomer =
     (let (uid, w1) = uuid4 w;
          (now, w2) = utc_now w1;
          row = \<lparr>n_user_id = uid, n_name = reg_name newcomer, n_email = reg_email newcomer,
                 n_password = reg_password newcomer, n_created_at = now\<rparr>
      in (Inr \<lparr>newcomer_user_id = uid, newcomer_name = reg_name newcomer,
                newcomer_email = reg_email newcomer, newcomer_created_at = now\<rparr>,
          w2\<lparr>db := (db w2)\<lparr>newcomers := newcomers (db w2) @ [row]\<rparr>\<rparr>))"

text \<open>
  \<open>_get_newcomer_by_token\<close>: the rows of \<open>newcomers JOIN registration_tokens\<close> on
  \<open>user_id\<close> with the given token and \<open>expired_at > $2\<close>, where \<open>$2\<close> is the reading of
  \<open>utc_now()\<close> made for the call; \<open>fetchrow\<close> gives the first row or \<open>None\<close>.
\<close>

definition token_rows ::
  "database \<Rightarrow> string \<Rightarrow> timestamp \<Rightarrow> (newcomers_row \<times> RegistrationToken) list" where
  "token_rows d tok now =
     filter (\<lambda>(n, rt). n_user_id n = rt_user_id rt \<and> token rt = tok \<and> expired_at rt > now)
       (List.product (newcomers d) (registration_tokens d))"

definition get_newcomer_by_token ::
  "world \<Rightarrow> string \<Rightarrow> (newcomers_row \<times> RegistrationToken) option \<times> world" where
  "get_newcomer_by_token w tok =
     (let (now, w1) = utc_now w
      in (case token_rows (db w1) tok now of [] \<Rightarrow> None | record # _ \<Rightarrow> Some record, w1))"

subsection \<open>The insert into \<open>users\<close>\<close>

text \<open>
  The statement of \<open>_verify_newcomer\<close> is kept as its \<open>VALUES\<close> list: one placeholder
  number and cast per column. A call passes the Python arguments in order;
  placeholder \<open>$i\<close> reads the \<open>i\<close>-th of them. The driver refuses a call whose number
  of arguments differs from the number of parameters of the statement, and a value
  that does not fit its column.
\<close>

datatype sql_type = T_UUID | T_VARCHAR | T_TIMESTAMP

datatype py_value = PyUUID uuid | PyStr string | PyDatetime timestamp | PyRole UserRole

definition insert_users_values :: "(nat \<times> sql_type) list" where
  "insert_users_values =
     [(1, T_UUID), (2, T_VARCHAR), (3, T_VARCHAR), (4, T_VARCHAR),
      (5, T_TIMESTAMP), (5, T_TIMESTAMP), (5, T_VARCHAR)]"

definition n_parameters :: "(nat \<times> sql_type) list \<Rightarrow> nat" where
  "n_parameters placeholders = fold max (map fst placeholders) 0"

definition bind_values ::
  "(nat \<times> sql_type) list \<Rightarrow> py_value list \<Rightarrow> (sql_type \<times> py_value) list" where
  "bind_values placeholders args = map (\<lambda>(i, ty). (ty, args ! (i - 1))) placeholders"

fun as_uuid :: "sql_type \<times> py_value \<Rightarrow> uuid option" where
  "as_uuid (T_UUID, PyUUID u) = Some u"
| "as_uuid _ = None"

fun as_varchar :: "sql_type \<times> py_value \<Rightarrow> string option" where
  "as_varchar (T_VARCHAR, PyStr s) = Some s"
| "as_varchar _ = None"

fun as_timestamp :: "sql_type \<times> py_value \<Rightarrow> timestamp option" where
  "as_timestamp (T_TIMESTAMP, PyDatetime t) = Some t"
| "as_timestamp _ = None"

fun as_role :: "sql_type \<times> py_value \<Rightarrow> UserRole option" where
  "as_role (T_VARCHAR, PyRole r) = Some r"
| "as_role _ = None"

definition users_row_of :: "(sql_type \<times> py_value) list \<Rightarrow> users_row option" where
  "users_row_of vs =
     (case vs of
        [a, b, c, d, e, f, g] \<Rightarrow>
          (case (as_uuid a, as_varchar b, as_varchar c, as_varchar d,
                 as_timestamp e, as_timestamp f, as_role g) of
             (Some uid, Some n, Some m, Some p, Some ct, Some vt, Some r) \<Rightarrow>
               Some \<lparr>u_user_id = uid, u_name = n, u_email = m, u_password = p,
                     u_created_at = ct, u_verified_at = vt, u_role = r\<rparr>
           | _ \<Rightarrow> None)
      | _ \<Rightarrow> None)"

definition insert_user :: "world \<Rightarrow> py_value list \<Rightarrow> (error + User) \<times> world" where
  "insert_user w args =
     (if length args \<noteq> n_parameters insert_users_values then (Inl DriverError, w)
      else case users_row_of (bind_values insert_users_values args) of
             None \<Rightarrow> (Inl DriverError, w)
           | Some row \<Rightarrow>
               (Inr \<lparr>user_id = u_user_id row, name = u_name row, email = u_email row,
                      created_at = u_created_at row, verified_at = u_verified_at row,
                      role = u_role row\<rparr>,
                w\<lparr>db := (db w)\<lparr>users := users (db w) @ [row]\<rparr>\<rparr>))"

section \<open>Registration and verification\<close>

definition create_newcomer_tx ::
  "'f DBService \<Rightarrow> world \<Rightarrow> NewcomerRegistered \<Rightarrow> (error + Newcomer) \<times> world" where
  "create_newcomer_tx self w newcomer =
     (let n_users = count_users_by_email w (reg_email newcomer) in
      if n_users > 0 then (Inl UserAlreadyExists, w)
      else
        let n_newcomers = count_newcomers_by_email w (reg_email newcomer) in
        if n_newcomers \<ge> max_newcomers_with_same_email self
        then (Inl TooManyNewcomersWithSameEmail, w)
        else insert_newcomer w newcomer)"

definition create_newcomer ::
  "'f::times DBService \<Rightarrow> NewcomerRegistered \<Rightarrow> 'f runtime \<Rightarrow> (error + Newcomer) \<times> 'f runtime" where
  "create_newcomer self newcomer rt =
     execute_serializable_transaction self (\<lambda>c. create_newcomer_tx self c newcomer) rt"

text \<open>
  \<open>save_registration_token\<close> runs one statement through \<open>self.pool.execute\<close>: a
  connection of its own, committed at once, outside every transaction of the executor.
\<close>

definition save_registration_token :: "RegistrationToken \<Rightarrow> 'f runtime \<Rightarrow> 'f runtime" where
  "save_registration_token tok rt =
     rt\<lparr>conn := (conn rt)\<lparr>db := (db (conn rt))
          \<lparr>registration_tokens := registration_tokens (db (conn rt)) @ [tok]\<rparr>\<rparr>\<rparr>"

text \<open>
  \<open>_get_newcomer_by_token\<close> hands back the driver's \<open>Record\<close>, whose fields are read
  by key or by index only: reading one as an attribute, as \<open>newcomer.email\<close> does,
  raises \<open>AttributeError\<close>. The second argument says which field the attribute names.
\<close>

definition record_attribute :: "'r \<Rightarrow> ('r \<Rightarrow> 'a) \<Rightarrow> error + 'a" where
  "record_attribute record field = Inl AttributeError"

text \<open>
  The first five arguments of the insert of \<open>_verify_newcomer\<close>, read from the
  record in the order of the call.
\<close>

definition insert_arguments :: "newcomers_row \<times> RegistrationToken \<Rightarrow> error + py_value list" where
  "insert_arguments newcomer =
     (case record_attribute newcomer (n_user_id \<circ> fst) of
        Inl e \<Rightarrow> Inl e
      | Inr uid \<Rightarrow>
     (case record_attribute newcomer (n_name \<circ> fst) of
        Inl e \<Rightarrow> Inl e
      | Inr nm \<Rightarrow>
     (case record_attribute newcomer (n_email \<circ> fst) of
        Inl e \<Rightarrow> Inl e
      | Inr em \<Rightarrow>
     (case record_attribute newcomer (n_password \<circ> fst) of
        Inl e \<Rightarrow> Inl e
      | Inr pw \<Rightarrow>
     (case record_attribute newcomer (n_created_at \<circ> fst) of
        Inl e \<Rightarrow> Inl e
      | Inr ct \<Rightarrow> Inr [PyUUID uid, PyStr nm, PyStr em, PyStr pw, PyDatetime ct])))))"

text \<open>
  \<open>_verify_newcomer\<close>. The variable \<open>newcomer\<close> holds the joined row. After the
  lookup the code reads \<open>newcomer.email\<close> to count the verified accounts, then the
  other fields and the clock for the insert, to which seven arguments are passed.
\<close>

definition verify_newcomer_tx :: "world \<Rightarrow> string \<Rightarrow> (error + User) \<times> world" where
  "verify_newcomer_tx w tok =
     (case get_newcomer_by_token w tok of
        (None, w1) \<Rightarrow> (Inl TokenNotFound, w1)
      | (Some newcomer, w1) \<Rightarrow>
          (case record_attribute newcomer (n_email \<circ> fst) of
             Inl e \<Rightarrow> (Inl e, w1)
           | Inr em \<Rightarrow>
               (let n_users = count_users_by_email w1 em in
                if n_users > 0 then (Inl UserAlreadyExists, w1)
                else
                  (case insert_arguments newcomer of
                     Inl e \<Rightarrow> (Inl e, w1)
                   | Inr args \<Rightarrow>
                       (let (now, w2) = utc_now w1 in
                        insert_user w2 (args @ [PyDatetime now, PyRole user]))))))"

definition verify_newcomer ::
  "'f::times DBService \<Rightarrow> string \<Rightarrow> 'f runtime \<Rightarrow> (error + User) \<times> 'f runtime" where
  "verify_newcomer self tok rt =
     execute_serializable_transaction self (\<lambda>c. verify_newcomer_tx c tok) rt"

text \<open>
  Registrations made one after the other, each through \<open>create_newcomer\<close>, with the
  outcome of each.
\<close>

fun register_all ::
  "'f::times DBService \<Rightarrow> NewcomerRegistered list \<Rightarrow> 'f runtime \<Rightarrow>
     (error + Newcomer) list \<times> 'f runtime" where
  "register_all self [] rt = ([], rt)"
| "register_all self (x # xs) rt =
     (let (r, rt1) = create_newcomer self x rt;
          (rs, rt2) = register_all self xs rt1
      in (r # rs, rt2))"

fun succeeded :: "error + 'a \<Rightarrow> bool" where
  "succeeded (Inr v) = True"
| "succeeded (Inl e) = False"

text \<open>
  Every newcomer row has a registration token row and every registration token row
  has its newcomer row.
\<close>

definition paired :: "database \<Rightarrow> bool" where
  "paired d =
     ((\<forall>n \<in> set (newcomers d). \<exists>t \<in> set (registration_tokens d). rt_user_id t = n_user_id n)
      \<and> (\<forall>t \<in> set (registration_tokens d). \<exists>n \<in> set (newcomers d). n_user_id n = rt_user_id t))"

section \<open>The endpoint \<open>GET /auth/users/{user_id}\<close>\<close>

text \<open>
  \<open>get_user\<close> of \<open>api/endpoints/user.py\<close>. \<open>request_user\<close> is the authenticated
  caller; \<open>db_service_get_user\<close> is the lookup \<open>db_service.get_user\<close>, a parameter.
\<close>

definition get_user :: "(uuid \<Rightarrow> error + User) \<Rightarrow> uuid \<Rightarrow> User \<Rightarrow> error + User" where
  "get_user db_service_get_user uid request_user =
     (if role request_user \<noteq> admin then Inl NotFoundException
      else case db_service_get_user uid of
             Inl e \<Rightarrow> (if e = UserNotExists then Inl NotFoundException else Inl e)
           | Inr found \<Rightarrow> Inr found)"

section \<open>Example inputs\<close>

definition empty_world :: world where
  "empty_world =
     \<lparr>db = \<lparr>users = [], newcomers = [], registration_tokens = []\<rparr>,
      clock = (\<lambda>k. 1000 + int k), utc_now_calls = 0,
      uuids = (\<lambda>k. 7 + k), uuid4_calls = 0\<rparr>"

definition start :: "real runtime" where
  "start = \<lparr>conn = empty_world, events = []\<rparr>"

definition service :: "int \<Rightarrow> real DBService" where
  "service n =
     \<lparr>max_newcomers_with_same_email = 3, n_transaction_retries = n,
      transaction_retry_interval_first = 1 / 10, transaction_retry_interval_factor = 2\<rparr>"

definition ann :: NewcomerRegistered where
  "ann = \<lparr>reg_name = ''ann'', reg_email = ''a@b.c'', reg_password = ''hash''\<rparr>"

definition always_conflict :: "world \<Rightarrow> (error + unit) \<times> world" where
  "always_conflict w = (Inl SerializationError, w)"

definition bob_row :: users_row where
  "bob_row =
     \<lparr>u_user_id = 1, u_name = ''bob'', u_email = ''a@b.c'', u_password = ''hash'',
      u_created_at = 10, u_verified_at = 20, u_role = user\<rparr>"

definition verified_world :: world where
  "verified_world =
     empty_world\<lparr>db := \<lparr>users = [bob_row], newcomers = [], registration_tokens = []\<rparr>\<rparr>"

definition ann_row :: newcomers_row where
  "ann_row =
     \<lparr>n_user_id = 7, n_name = ''ann'', n_email = ''a@b.c'', n_password = ''hash'',
      n_created_at = 1000\<rparr>"

definition ann_token :: "timestamp \<Rightarrow> RegistrationToken" where
  "ann_token expiry =
     \<lparr>token = ''tok'', rt_created_at = 1000, expired_at = expiry, rt_user_id = 7\<rparr>"

text \<open>Ann registered at 1000 with a token that expires at the given time; it is 2000.\<close>

definition pending_world :: "timestamp \<Rightarrow> world" where
  "pending_world expiry =
     \<lparr>db = \<lparr>users = [], newcomers = [ann_row], registration_tokens = [ann_token expiry]\<rparr>,
      clock = (\<lambda>k. 2000 + int k), utc_now_calls = 0,
      uuids = (\<lambda>k. 8 + k), uuid4_calls = 0\<rparr>"

definition admin_user :: User where
  "admin_user =
     \<lparr>user_id = 1, name = ''root'', email = ''r@b.c'', created_at = 1, verified_at = 2,
      role = admin\<rparr>"

definition plain_user :: User where
  "plain_user =
     \<lparr>user_id = 2, name = ''bob'', email = ''a@b.c'', created_at = 10, verified_at = 20,
      role = user\<rparr>"

definition lookup_none :: "uuid \<Rightarrow> error + User" where
  "lookup_none uid = Inl UserNotExists"

definition lookup_admin :: "uuid \<Rightarrow> error + User" where
  "lookup_admin uid = (if uid = 1 then Inr admin_user else Inl UserNotExists)"

text \<open>
  Tables that already hold a verified account and a pending signup, both for other
  addresses than Ann's.
\<close>

definition busy_world :: world where
  "busy_world =
     empty_world\<lparr>db := \<lparr>users = [bob_row\<lparr>u_email := ''bob@b.c''\<rparr>],
                          newcomers = [ann_row\<lparr>n_user_id := 3, n_name := ''dan'',
                                               n_email := ''dan@b.c''\<rparr>],
                          registration_tokens = []\<rparr>\<rparr>"


section \<open>Properties of the executor\<close>

lemma range_py_empty: "n \<le> 0 \<Longrightarrow> range_py n = []"
  by (simp add: range_py_def)

declare retry_loop.simps(2) [simp del]

lemma fst_transaction: "fst (transaction func w) = fst (func w)"
  by (simp add: transaction_def split: prod.splits sum.splits)

lemma interval_of_Suc:
  "interval_of self (Suc k) = interval_of self k * transaction_retry_interval_factor self"
  by (simp add: interval_of_def)

lemma interval_of_0: "interval_of self 0 = transaction_retry_interval_first self"
  by (simp add: interval_of_def)

lemma upto_attempts: "int k < n \<Longrightarrow> [int k..n - 1] = int k # [int (Suc k)..n - 1]"
  by (simp add: upto_rec1 add.commute)

lemma retry_loop_stops:
  assumes "fst (func (conn rt)) \<noteq> Inl SerializationError \<or> attempt = n_transaction_retries self - 1"
  shows "retry_loop self func (attempt # rest) interval rt =
           (fst (func (conn rt)),
            \<lparr>conn = snd (transaction func (conn rt)), events = events rt @ [Transaction]\<rparr>)"
proof (cases "transaction func (conn rt)")
  case (Pair outcome w')
  then have "fst (func (conn rt)) = outcome" using fst_transaction[of func "conn rt"] by simp
  with assms Pair show ?thesis
    by (cases outcome) (auto simp: retry_loop.simps(2) Let_def)
qed

lemma retry_loop_retries:
  assumes "fst (func (conn rt)) = Inl SerializationError"
      and "attempt \<noteq> n_transaction_retries self - 1"
  shows "retry_loop self func (attempt # rest) interval rt =
           retry_loop self func rest (interval * transaction_retry_interval_factor self)
             (asyncio_sleep interval
                \<lparr>conn = snd (transaction func (conn rt)), events = events rt @ [Transaction]\<rparr>)"
proof (cases "transaction func (conn rt)")
  case (Pair outcome w')
  then have "fst (func (conn rt)) = outcome" using fst_transaction[of func "conn rt"] by simp
  with assms Pair show ?thesis
    by (simp add: retry_loop.simps(2) Let_def)
qed

lemma retry_loop_run:
  assumes j: "int j < n_transaction_retries self"
      and conflicts: "\<forall>i<j. fst (func (conn (attempt_start self func rt i))) = Inl SerializationError"
      and last: "fst (func (conn (attempt_start self func rt j))) \<noteq> Inl SerializationError
                 \<or> int j = n_transaction_retries self - 1"
      and k: "k \<le> j"
  shows "retry_loop self func [int k..n_transaction_retries self - 1] (interval_of self k)
           (attempt_start self func rt k) =
         (fst (func (conn (attempt_start self func rt j))),
          \<lparr>conn = snd (transaction func (conn (attempt_start self func rt j))),
           events = events (attempt_start self func rt j) @ [Transaction]\<rparr>)"
  using k
proof (induction "j - k" arbitrary: k)
  case 0
  then have kj: "k = j" by simp
  have "[int j..n_transaction_retries self - 1] = int j # [int (Suc j)..n_transaction_retries self - 1]"
    using j by (rule upto_attempts)
  then show ?case unfolding kj using retry_loop_stops[where func=func and rt="attempt_start self func rt j"
        and attempt="int j" and self=self, OF last] by simp
next
  case (Suc d)
  then have lt: "k < j" and d: "d = j - Suc k" and le: "Suc k \<le> j" by simp_all
  have list: "[int k..n_transaction_retries self - 1] = int k # [int (Suc k)..n_transaction_retries self - 1]"
    using j lt by (intro upto_attempts) simp
  have c: "fst (func (conn (attempt_start self func rt k))) = Inl SerializationError"
    using conflicts lt by simp
  have ne: "int k \<noteq> n_transaction_retries self - 1" using j lt by simp
  show ?case
    unfolding list
      retry_loop_retries[where func=func and rt="attempt_start self func rt k"
        and attempt="int k" and self=self, OF c ne]
    using Suc.hyps(1)[OF d le] by (simp add: interval_of_Suc)
qed


lemma executor_run:
  assumes "int j < n_transaction_retries self"
      and "\<forall>i<j. fst (func (conn (attempt_start self func rt i))) = Inl SerializationError"
      and "fst (func (conn (attempt_start self func rt j))) \<noteq> Inl SerializationError
                 \<or> int j = n_transaction_retries self - 1"
  shows "execute_serializable_transaction self func rt =
         (fst (func (conn (attempt_start self func rt j))),
          \<lparr>conn = snd (transaction func (conn (attempt_start self func rt j))),
           events = events (attempt_start self func rt j) @ [Transaction]\<rparr>)"
  using retry_loop_run[OF assms, of 0]
  by (simp add: execute_serializable_transaction_def range_py_def interval_of_0)

text \<open>
  With at least one attempt configured, a call ends with the outcome of one of its
  attempts: the first that does not end in a conflict, or the last one.
\<close>

lemma executor_returns_an_attempt:
  assumes "1 \<le> n_transaction_retries self"
  shows "\<exists>j. int j < n_transaction_retries self \<and>
           execute_serializable_transaction self func rt =
             (fst (func (conn (attempt_start self func rt j))),
              \<lparr>conn = snd (transaction func (conn (attempt_start self func rt j))),
               events = events (attempt_start self func rt j) @ [Transaction]\<rparr>)"
proof -
  define P where "P i \<longleftrightarrow>
      fst (func (conn (attempt_start self func rt i))) \<noteq> Inl SerializationError
      \<or> int i = n_transaction_retries self - 1" for i
  define j where "j = (LEAST i. P i)"
  have last: "P (nat (n_transaction_retries self) - 1)"
    unfolding P_def using assms by (intro disjI2) arith
  have Pj: "P j" unfolding j_def using last by (rule LeastI)
  have le: "j \<le> nat (n_transaction_retries self) - 1"
    unfolding j_def using last by (rule Least_le)
  have lt: "int j < n_transaction_retries self" using le assms by arith
  have before: "\<forall>i<j. fst (func (conn (attempt_start self func rt i))) = Inl SerializationError"
  proof (intro allI impI)
    fix i assume "i < j"
    then have "\<not> P i" unfolding j_def by (rule not_less_Least)
    then show "fst (func (conn (attempt_start self func rt i))) = Inl SerializationError"
      by (simp add: P_def)
  qed
  have stop: "fst (func (conn (attempt_start self func rt j))) \<noteq> Inl SerializationError
                 \<or> int j = n_transaction_retries self - 1"
    using Pj by (simp add: P_def)
  show ?thesis
    using executor_run[where j=j and self=self and func=func and rt=rt, OF lt before stop] lt
    by blast
qed






text \<open>
  C9. When \<open>n_transaction_retries\<close> is zero or negative the loop body never runs: no
  transaction is opened, the unit of work is never awaited, nothing sleeps, the
  database is untouched, and the call ends in the error of reading the unassigned
  \<open>result\<close>, which is neither a result nor a domain or serialization error.
\<close>

theorem execute_without_attempts:
  "n_transaction_retries self \<le> 0 \<Longrightarrow>
     execute_serializable_transaction self func rt = (Inl UnboundLocalError, rt)"
  by (simp add: execute_serializable_transaction_def range_py_empty)

theorem execute_without_attempts_witness:
  "n_transaction_retries (service 0) \<le> 0 \<and>
   execute_serializable_transaction (service 0) always_conflict start
     = (Inl UnboundLocalError, start)"
  using execute_without_attempts [of "service 0" always_conflict start]
  by (simp add: service_def)

text \<open>
  C4. A unit of work that raises anything but the serialization conflict ends the call
  at once: the error comes back unchanged, the transaction is rolled back, and the run
  consists of that one transaction, with no sleep and no further attempt. This holds
  at every iteration of the loop, and so for the first attempt of a call with at least
  one attempt configured.
\<close>

theorem domain_error_is_not_retried:
  assumes "func (conn rt) = (Inl e, w')" and "e \<noteq> SerializationError"
  shows "retry_loop self func (attempt # rest) interval rt =
           (Inl e, \<lparr>conn = w'\<lparr>db := db (conn rt)\<rparr>, events = events rt @ [Transaction]\<rparr>)
         \<and> (1 \<le> n_transaction_retries self \<longrightarrow>
              execute_serializable_transaction self func rt =
                (Inl e, \<lparr>conn = w'\<lparr>db := db (conn rt)\<rparr>, events = events rt @ [Transaction]\<rparr>))"
proof -
  have out: "fst (func (conn rt)) \<noteq> Inl SerializationError \<or> a = n_transaction_retries self - 1"
    for a using assms by simp
  have tr: "snd (transaction func (conn rt)) = w'\<lparr>db := db (conn rt)\<rparr>"
    using assms by (simp add: transaction_def)
  have step: "retry_loop self func (a # r) i rt =
                (Inl e, \<lparr>conn = w'\<lparr>db := db (conn rt)\<rparr>, events = events rt @ [Transaction]\<rparr>)"
    for a r i
    using retry_loop_stops[where func=func and rt=rt and attempt=a and self=self, OF out]
      assms tr by simp
  show ?thesis
    by (simp add: step execute_serializable_transaction_def range_py_def upto_rec1)
qed

theorem domain_error_is_not_retried_witness:
  "create_newcomer_tx (service 3) (conn \<lparr>conn = verified_world, events = []\<rparr>) ann
     = (Inl UserAlreadyExists, verified_world)
   \<and> UserAlreadyExists \<noteq> SerializationError
   \<and> 1 \<le> n_transaction_retries (service 3)
   \<and> execute_serializable_transaction (service 3)
        (\<lambda>c. create_newcomer_tx (service 3) c ann) \<lparr>conn = verified_world, events = []\<rparr>
     = (Inl UserAlreadyExists, \<lparr>conn = verified_world, events = [Transaction]\<rparr>)"
proof -
  have run: "create_newcomer_tx (service 3) (conn \<lparr>conn = verified_world, events = []\<rparr>) ann
               = (Inl UserAlreadyExists, verified_world)"
    by (simp add: create_newcomer_tx_def count_users_by_email_def verified_world_def
        empty_world_def bob_row_def ann_def)
  have ne: "UserAlreadyExists \<noteq> SerializationError" by simp
  have n: "1 \<le> n_transaction_retries (service 3)" by (simp add: service_def)
  have same: "verified_world\<lparr>db := db verified_world\<rparr> = verified_world" by simp
  show ?thesis
    using domain_error_is_not_retried
      [of "\<lambda>c. create_newcomer_tx (service 3) c ann" "\<lparr>conn = verified_world, events = []\<rparr>"
         UserAlreadyExists verified_world "service 3" 0 "[]" 1, OF run ne]
      run n same
    by simp
qed



section \<open>Properties of registration and verification\<close>

text \<open>
  The tables are those of one client: no statement of the units of work modelled here
  meets a serialization conflict, so a call with at least one attempt configured is
  decided by its first transaction.
\<close>

lemma execute_first_attempt:
  assumes "1 \<le> n_transaction_retries self"
      and "fst (func (conn rt)) \<noteq> Inl SerializationError"
  shows "execute_serializable_transaction self func rt =
           (fst (func (conn rt)),
            \<lparr>conn = snd (transaction func (conn rt)), events = events rt @ [Transaction]\<rparr>)"
  using executor_run[where j=0 and self=self and func=func and rt=rt] assms by simp

lemma create_newcomer_tx_no_conflict:
  "fst (create_newcomer_tx self w x) \<noteq> Inl SerializationError"
  by (simp add: create_newcomer_tx_def insert_newcomer_def Let_def split: prod.splits)

lemma get_newcomer_by_token_world:
  "snd (get_newcomer_by_token w tok) = w\<lparr>utc_now_calls := Suc (utc_now_calls w)\<rparr>"
  by (simp add: get_newcomer_by_token_def utc_now_def)

lemma insert_user_no_conflict: "fst (insert_user w args) \<noteq> Inl SerializationError"
  by (simp add: insert_user_def split: option.splits)

lemma verify_newcomer_tx_no_conflict:
  "fst (verify_newcomer_tx w tok) \<noteq> Inl SerializationError"
  by (simp add: verify_newcomer_tx_def record_attribute_def split: prod.splits option.splits)

lemma create_newcomer_first_attempt:
  "1 \<le> n_transaction_retries self \<Longrightarrow>
   create_newcomer self x rt =
     (fst (create_newcomer_tx self (conn rt) x),
      \<lparr>conn = snd (transaction (\<lambda>c. create_newcomer_tx self c x) (conn rt)),
       events = events rt @ [Transaction]\<rparr>)"
  unfolding create_newcomer_def
  using execute_first_attempt[where func="\<lambda>c. create_newcomer_tx self c x" and self=self and rt=rt]
    create_newcomer_tx_no_conflict[of self "conn rt" x]
  by simp

lemma verify_newcomer_first_attempt:
  "1 \<le> n_transaction_retries self \<Longrightarrow>
   verify_newcomer self tok rt =
     (fst (verify_newcomer_tx (conn rt) tok),
      \<lparr>conn = snd (transaction (\<lambda>c. verify_newcomer_tx c tok) (conn rt)),
       events = events rt @ [Transaction]\<rparr>)"
  unfolding verify_newcomer_def
  using execute_first_attempt[where func="\<lambda>c. verify_newcomer_tx c tok" and self=self and rt=rt]
    verify_newcomer_tx_no_conflict[of "conn rt" tok]
  by simp

lemma transaction_error:
  "body w = (Inl e, w') \<Longrightarrow> transaction body w = (Inl e, w'\<lparr>db := db w\<rparr>)"
  by (simp add: transaction_def)

lemma transaction_result:
  "body w = (Inr r, w') \<Longrightarrow> transaction body w = (Inr r, w')"
  by (simp add: transaction_def)

lemma token_rows_member:
  "((n, t) \<in> set (token_rows d tok now)) =
     (n \<in> set (newcomers d) \<and> t \<in> set (registration_tokens d) \<and> n_user_id n = rt_user_id t
      \<and> token t = tok \<and> now < expired_at t)"
  by (auto simp: token_rows_def)

lemma get_newcomer_by_token_found:
  assumes "token_rows (db w) tok (clock w (utc_now_calls w)) \<noteq> []"
  shows "fst (get_newcomer_by_token w tok) \<noteq> None"
  using assms by (simp add: get_newcomer_by_token_def utc_now_def split: list.splits)

lemma verify_newcomer_tx_not_found:
  assumes "token_rows (db w) tok (clock w (utc_now_calls w)) = []"
  shows "verify_newcomer_tx w tok = (Inl TokenNotFound, w\<lparr>utc_now_calls := Suc (utc_now_calls w)\<rparr>)"
  using assms by (simp add: verify_newcomer_tx_def get_newcomer_by_token_def utc_now_def)


lemma token_rows_empty:
  assumes "\<forall>t \<in> set (registration_tokens d). token t = tok \<longrightarrow> expired_at t \<le> now"
  shows "token_rows d tok now = []"
  unfolding token_rows_def filter_empty_conv using assms by auto


lemma insert_newcomer_eq:
  "insert_newcomer w x =
     (Inr \<lparr>newcomer_user_id = uuids w (uuid4_calls w), newcomer_name = reg_name x,
            newcomer_email = reg_email x, newcomer_created_at = clock w (utc_now_calls w)\<rparr>,
      w\<lparr>uuid4_calls := Suc (uuid4_calls w), utc_now_calls := Suc (utc_now_calls w),
        db := (db w)\<lparr>newcomers := newcomers (db w) @
                 [\<lparr>n_user_id = uuids w (uuid4_calls w), n_name = reg_name x,
                   n_email = reg_email x, n_password = reg_password x,
                   n_created_at = clock w (utc_now_calls w)\<rparr>]\<rparr>\<rparr>)"
  by (simp add: insert_newcomer_def uuid4_def utc_now_def)

lemma create_newcomer_tx_cases:
  "create_newcomer_tx self w x =
     (if 0 < count_users_by_email w (reg_email x) then (Inl UserAlreadyExists, w)
      else if max_newcomers_with_same_email self \<le> count_newcomers_by_email w (reg_email x)
      then (Inl TooManyNewcomersWithSameEmail, w)
      else insert_newcomer w x)"
  by (simp add: create_newcomer_tx_def)

lemma count_users_nonneg: "0 \<le> count_users_by_email w e"
  by (simp add: count_users_by_email_def)

lemma create_newcomer_accepts:
  assumes "1 \<le> n_transaction_retries self"
      and "count_users_by_email (conn rt) (reg_email x) = 0"
      and "count_newcomers_by_email (conn rt) (reg_email x) < max_newcomers_with_same_email self"
  shows "create_newcomer self x rt =
           (fst (insert_newcomer (conn rt) x),
            \<lparr>conn = snd (insert_newcomer (conn rt) x), events = events rt @ [Transaction]\<rparr>)"
proof -
  have tx: "create_newcomer_tx self (conn rt) x = insert_newcomer (conn rt) x"
    using assms by (simp add: create_newcomer_tx_cases)
  have "transaction (\<lambda>c. create_newcomer_tx self c x) (conn rt) = insert_newcomer (conn rt) x"
    by (simp add: transaction_def tx insert_newcomer_eq)
  then show ?thesis using assms(1) tx by (simp add: create_newcomer_first_attempt)
qed

lemma create_newcomer_rejects:
  assumes "1 \<le> n_transaction_retries self"
      and "count_users_by_email (conn rt) (reg_email x) = 0"
      and "max_newcomers_with_same_email self \<le> count_newcomers_by_email (conn rt) (reg_email x)"
  shows "create_newcomer self x rt =
           (Inl TooManyNewcomersWithSameEmail,
            \<lparr>conn = conn rt, events = events rt @ [Transaction]\<rparr>)"
proof -
  have tx: "create_newcomer_tx self (conn rt) x = (Inl TooManyNewcomersWithSameEmail, conn rt)"
    using assms by (simp add: create_newcomer_tx_cases)
  show ?thesis
    using assms(1) tx transaction_error[where body="\<lambda>c. create_newcomer_tx self c x", OF tx]
    by (simp add: create_newcomer_first_attempt)
qed

lemma count_after_insert:
  "count_newcomers_by_email (snd (insert_newcomer w x)) e =
     count_newcomers_by_email w e + (if reg_email x = e then 1 else 0)"
  "count_users_by_email (snd (insert_newcomer w x)) e = count_users_by_email w e"
  "length (newcomers (db (snd (insert_newcomer w x)))) = Suc (length (newcomers (db w)))"
  by (simp_all add: insert_newcomer_eq count_newcomers_by_email_def count_users_by_email_def)

lemma succeeded_insert: "succeeded (fst (insert_newcomer w x))"
  by (simp add: insert_newcomer_eq)

lemma register_all_Cons:
  "register_all self (x # xs) rt =
     (fst (create_newcomer self x rt) # fst (register_all self xs (snd (create_newcomer self x rt))),
      snd (register_all self xs (snd (create_newcomer self x rt))))"
  by (simp split: prod.splits)

lemma no_user_with_email:
  assumes "\<forall>u \<in> set (users (db w)). u_email u \<noteq> e"
  shows "count_users_by_email w e = 0"
  using assms by (simp add: count_users_by_email_def filter_empty_conv)

lemma tables_after_insert:
  "newcomers (db (snd (insert_newcomer w x))) =
     newcomers (db w) @
       [\<lparr>n_user_id = uuids w (uuid4_calls w), n_name = reg_name x, n_email = reg_email x,
         n_password = reg_password x, n_created_at = clock w (utc_now_calls w)\<rparr>]"
  "users (db (snd (insert_newcomer w x))) = users (db w)"
  "registration_tokens (db (snd (insert_newcomer w x))) = registration_tokens (db w)"
  by (simp_all add: insert_newcomer_eq)

lemma register_all_accepts:
  assumes "1 \<le> n_transaction_retries self"
      and "\<forall>x \<in> set xs. reg_email x = e"
      and "count_users_by_email (conn rt) e = 0"
      and "count_newcomers_by_email (conn rt) e + int (length xs)
             \<le> max_newcomers_with_same_email self"
  shows "list_all succeeded (fst (register_all self xs rt))
         \<and> length (fst (register_all self xs rt)) = length xs
         \<and> count_users_by_email (conn (snd (register_all self xs rt))) e = 0
         \<and> count_newcomers_by_email (conn (snd (register_all self xs rt))) e =
             count_newcomers_by_email (conn rt) e + int (length xs)
         \<and> users (db (conn (snd (register_all self xs rt)))) = users (db (conn rt))
         \<and> registration_tokens (db (conn (snd (register_all self xs rt)))) =
             registration_tokens (db (conn rt))
         \<and> (\<exists>rows. newcomers (db (conn (snd (register_all self xs rt)))) =
                       newcomers (db (conn rt)) @ rows
                     \<and> map (\<lambda>n. (n_name n, n_email n, n_password n)) rows =
                         map (\<lambda>x. (reg_name x, reg_email x, reg_password x)) xs)"
  using assms(2-)
proof (induction xs arbitrary: rt)
  case Nil
  then show ?case by simp
next
  case (Cons x xs)
  let ?rt1 = "\<lparr>conn = snd (insert_newcomer (conn rt) x), events = events rt @ [Transaction]\<rparr>"
  let ?row = "\<lparr>n_user_id = uuids (conn rt) (uuid4_calls (conn rt)), n_name = reg_name x,
                n_email = reg_email x, n_password = reg_password x,
                n_created_at = clock (conn rt) (utc_now_calls (conn rt))\<rparr>"
  have e: "reg_email x = e" using Cons.prems(1) by simp
  have step: "create_newcomer self x rt = (fst (insert_newcomer (conn rt) x), ?rt1)"
    using create_newcomer_accepts[OF assms(1), of rt x] Cons.prems e by simp
  have u1: "count_users_by_email (conn ?rt1) e = 0"
    using Cons.prems(2) by (simp add: count_after_insert)
  have c1: "count_newcomers_by_email (conn ?rt1) e = count_newcomers_by_email (conn rt) e + 1"
    using e by (simp add: count_after_insert)
  have n1: "newcomers (db (conn ?rt1)) = newcomers (db (conn rt)) @ [?row]"
    by (simp add: tables_after_insert)
  have t1: "users (db (conn ?rt1)) = users (db (conn rt))"
           "registration_tokens (db (conn ?rt1)) = registration_tokens (db (conn rt))"
    by (simp_all add: tables_after_insert)
  have room: "count_newcomers_by_email (conn ?rt1) e + int (length xs)
             \<le> max_newcomers_with_same_email self"
    using Cons.prems(3) c1 by simp
  have tail: "\<forall>x \<in> set xs. reg_email x = e" using Cons.prems(1) by simp
  note ih = Cons.IH[OF tail u1 room]
  have run: "register_all self (x # xs) rt =
               (fst (insert_newcomer (conn rt) x) # fst (register_all self xs ?rt1),
                snd (register_all self xs ?rt1))"
    by (simp add: register_all_Cons step del: register_all.simps)
  from ih obtain rows where
    rows: "newcomers (db (conn (snd (register_all self xs ?rt1)))) =
             newcomers (db (conn ?rt1)) @ rows"
      "map (\<lambda>n. (n_name n, n_email n, n_password n)) rows =
         map (\<lambda>x. (reg_name x, reg_email x, reg_password x)) xs"
    by blast
  have ex: "\<exists>rows. newcomers (db (conn (snd (register_all self (x # xs) rt)))) =
                       newcomers (db (conn rt)) @ rows
                     \<and> map (\<lambda>n. (n_name n, n_email n, n_password n)) rows =
                         map (\<lambda>x. (reg_name x, reg_email x, reg_password x)) (x # xs)"
  proof (intro exI conjI)
    show "newcomers (db (conn (snd (register_all self (x # xs) rt)))) =
            newcomers (db (conn rt)) @ (?row # rows)"
      unfolding run using rows(1) n1 by simp
    show "map (\<lambda>n. (n_name n, n_email n, n_password n)) (?row # rows) =
            map (\<lambda>x. (reg_name x, reg_email x, reg_password x)) (x # xs)"
      using rows(2) by simp
  qed
  have rest: "list_all succeeded (fst (register_all self (x # xs) rt))
         \<and> length (fst (register_all self (x # xs) rt)) = length (x # xs)
         \<and> count_users_by_email (conn (snd (register_all self (x # xs) rt))) e = 0
         \<and> count_newcomers_by_email (conn (snd (register_all self (x # xs) rt))) e =
             count_newcomers_by_email (conn rt) e + int (length (x # xs))
         \<and> users (db (conn (snd (register_all self (x # xs) rt)))) = users (db (conn rt))
         \<and> registration_tokens (db (conn (snd (register_all self (x # xs) rt)))) =
             registration_tokens (db (conn rt))"
    unfolding run using ih c1 t1 by (simp add: succeeded_insert)
  show ?case using rest ex by blast
qed

lemma register_all_append:
  "register_all self (xs @ ys) rt =
     (fst (register_all self xs rt) @ fst (register_all self ys (snd (register_all self xs rt))),
      snd (register_all self ys (snd (register_all self xs rt))))"
  by (induction xs arbitrary: rt) (simp_all add: register_all_Cons del: register_all.simps(2))

lemma map_succeeded:
  "list_all succeeded rs \<Longrightarrow> map succeeded rs = replicate (length rs) True"
  by (induction rs) simp_all

text \<open>
  C6. Take an email that no row of \<open>users\<close> carries, and registrations made one
  after the other with that email, at least one attempt being configured. As many of
  them as the maximum exceeds the rows of \<open>newcomers\<close> already carrying the email
  succeed (for an email with none: exactly the maximum), whatever rows the two tables
  hold for other emails, and the next one fails with \<open>TooManyNewcomersWithSameEmail\<close>.
  The failing registration leaves the connection's world as it was. Afterwards
  \<open>newcomers\<close> is the table of before followed by one row per success, with the
  name, email and password of that registration; exactly the maximum of its rows
  carry the email; \<open>users\<close> and \<open>registration_tokens\<close> are as before.
\<close>

theorem registrations_stop_at_the_maximum:
  assumes "1 \<le> n_transaction_retries self"
      and "\<forall>u \<in> set (users (db (conn rt))). u_email u \<noteq> e"
      and "\<forall>x \<in> set xs. reg_email x = e" and "reg_email y = e"
      and "int (length xs) = max_newcomers_with_same_email self
             - int (length (filter (\<lambda>n. n_email n = e) (newcomers (db (conn rt)))))"
  shows "list_all succeeded (fst (register_all self xs rt))
         \<and> length (fst (register_all self xs rt)) = length xs
         \<and> fst (register_all self (xs @ [y]) rt) =
             fst (register_all self xs rt) @ [Inl TooManyNewcomersWithSameEmail]
         \<and> conn (snd (register_all self (xs @ [y]) rt)) = conn (snd (register_all self xs rt))
         \<and> (\<exists>rows. newcomers (db (conn (snd (register_all self (xs @ [y]) rt)))) =
                       newcomers (db (conn rt)) @ rows
                     \<and> map (\<lambda>n. (n_name n, n_email n, n_password n)) rows =
                         map (\<lambda>x. (reg_name x, reg_email x, reg_password x)) xs)
         \<and> int (length (filter (\<lambda>n. n_email n = e)
                  (newcomers (db (conn (snd (register_all self (xs @ [y]) rt))))))) =
             max_newcomers_with_same_email self
         \<and> users (db (conn (snd (register_all self (xs @ [y]) rt)))) = users (db (conn rt))
         \<and> registration_tokens (db (conn (snd (register_all self (xs @ [y]) rt)))) =
             registration_tokens (db (conn rt))"
proof -
  let ?rt' = "snd (register_all self xs rt)"
  have u0: "count_users_by_email (conn rt) e = 0"
    using assms(2) by (rule no_user_with_email)
  have len: "int (length xs) =
               max_newcomers_with_same_email self - count_newcomers_by_email (conn rt) e"
    using assms(5) by (simp add: count_newcomers_by_email_def)
  have room: "count_newcomers_by_email (conn rt) e + int (length xs)
             \<le> max_newcomers_with_same_email self"
    using len by simp
  note acc = register_all_accepts[OF assms(1) assms(3) u0 room]
  have full: "max_newcomers_with_same_email self \<le> count_newcomers_by_email (conn ?rt') (reg_email y)"
    using acc assms(4) len by simp
  have u: "count_users_by_email (conn ?rt') (reg_email y) = 0"
    using acc assms(4) by simp
  have last: "create_newcomer self y ?rt' =
           (Inl TooManyNewcomersWithSameEmail,
            \<lparr>conn = conn ?rt', events = events ?rt' @ [Transaction]\<rparr>)"
    by (rule create_newcomer_rejects[OF assms(1) u full])
  have one: "register_all self [y] ?rt' =
           ([Inl TooManyNewcomersWithSameEmail],
            \<lparr>conn = conn ?rt', events = events ?rt' @ [Transaction]\<rparr>)"
    by (simp add: register_all_Cons last del: register_all.simps(2))
  have same: "conn (snd (register_all self (xs @ [y]) rt)) = conn ?rt'"
    by (simp add: register_all_append one del: register_all.simps)
  have res: "fst (register_all self (xs @ [y]) rt) =
             fst (register_all self xs rt) @ [Inl TooManyNewcomersWithSameEmail]"
    by (simp add: register_all_append one del: register_all.simps)
  have cnt: "int (length (filter (\<lambda>n. n_email n = e) (newcomers (db (conn ?rt'))))) =
             max_newcomers_with_same_email self"
    using acc len by (simp add: count_newcomers_by_email_def)
  show ?thesis
    unfolding same res using acc cnt by blast
qed

theorem registrations_stop_at_the_maximum_witness:
  "1 \<le> n_transaction_retries (service 3)
   \<and> map u_email (users (db busy_world)) = [''bob@b.c'']
   \<and> map n_email (newcomers (db busy_world)) = [''dan@b.c'']
   \<and> reg_email ann = ''a@b.c''
   \<and> max_newcomers_with_same_email (service 3) = 3
   \<and> list_all succeeded
        (fst (register_all (service 3) [ann, ann, ann] \<lparr>conn = busy_world, events = []\<rparr>))
   \<and> map succeeded
        (fst (register_all (service 3) [ann, ann, ann, ann] \<lparr>conn = busy_world, events = []\<rparr>))
       = [True, True, True, False]
   \<and> last (fst (register_all (service 3) [ann, ann, ann, ann]
                   \<lparr>conn = busy_world, events = []\<rparr>))
       = Inl TooManyNewcomersWithSameEmail
   \<and> int (length (filter (\<lambda>n. n_email n = ''a@b.c'')
            (newcomers (db (conn (snd (register_all (service 3) [ann, ann, ann, ann]
                                         \<lparr>conn = busy_world, events = []\<rparr>))))))) = 3
   \<and> length (newcomers (db (conn (snd (register_all (service 3) [ann, ann, ann, ann]
                                         \<lparr>conn = busy_world, events = []\<rparr>))))) = 4
   \<and> users (db (conn (snd (register_all (service 3) [ann, ann, ann, ann]
                             \<lparr>conn = busy_world, events = []\<rparr>)))) = users (db busy_world)"
proof -
  let ?rt = "\<lparr>conn = busy_world, events = [] :: real event list\<rparr>"
  have n: "1 \<le> n_transaction_retries (service 3)" by (simp add: service_def)
  have us: "map u_email (users (db busy_world)) = [''bob@b.c'']"
    by (simp add: busy_world_def empty_world_def bob_row_def)
  have ns: "map n_email (newcomers (db busy_world)) = [''dan@b.c'']"
    by (simp add: busy_world_def empty_world_def ann_row_def)
  have u: "\<forall>u \<in> set (users (db (conn ?rt))). u_email u \<noteq> ''a@b.c''"
    by (simp add: busy_world_def empty_world_def bob_row_def)
  have a: "reg_email ann = ''a@b.c''" by (simp add: ann_def)
  have xs: "\<forall>x \<in> set [ann, ann, ann]. reg_email x = ''a@b.c''" using a by simp
  have m: "max_newcomers_with_same_email (service 3) = 3" by (simp add: service_def)
  have len: "int (length [ann, ann, ann]) = max_newcomers_with_same_email (service 3)
             - int (length (filter (\<lambda>n. n_email n = ''a@b.c'') (newcomers (db (conn ?rt)))))"
    by (simp add: m busy_world_def empty_world_def ann_row_def)
  have l0: "length (newcomers (db (conn ?rt))) = 1"
    by (simp add: busy_world_def empty_world_def)
  note inst = registrations_stop_at_the_maximum
      [of "service 3" ?rt "''a@b.c''" "[ann, ann, ann]" ann, OF n u xs a len]
  have three: "map succeeded (fst (register_all (service 3) [ann, ann, ann] ?rt)) =
                 [True, True, True]"
    using inst map_succeeded[of "fst (register_all (service 3) [ann, ann, ann] ?rt)"]
    by (simp add: eval_nat_numeral del: register_all.simps)
  have app: "[ann, ann, ann, ann] = [ann, ann, ann] @ [ann]" by simp
  from inst obtain rows where
    rows: "newcomers (db (conn (snd (register_all (service 3) ([ann, ann, ann] @ [ann]) ?rt)))) =
             newcomers (db (conn ?rt)) @ rows"
          "map (\<lambda>n. (n_name n, n_email n, n_password n)) rows =
             map (\<lambda>x. (reg_name x, reg_email x, reg_password x)) [ann, ann, ann]"
    by blast
  have "length (map (\<lambda>n. (n_name n, n_email n, n_password n)) rows) = 3"
    unfolding rows(2) by simp
  then have lr: "length rows = 3" by simp
  have total: "length (newcomers (db (conn (snd (register_all (service 3)
                  ([ann, ann, ann] @ [ann]) ?rt))))) = 4"
    unfolding rows(1) using l0 lr by simp
  have res: "fst (register_all (service 3) ([ann, ann, ann] @ [ann]) ?rt) =
               fst (register_all (service 3) [ann, ann, ann] ?rt)
                 @ [Inl TooManyNewcomersWithSameEmail]"
    using inst by blast
  have pattern: "map succeeded (fst (register_all (service 3) ([ann, ann, ann] @ [ann]) ?rt))
                   = [True, True, True, False]"
    unfolding res using three by simp
  have lastr: "last (fst (register_all (service 3) ([ann, ann, ann] @ [ann]) ?rt))
                 = Inl TooManyNewcomersWithSameEmail"
    unfolding res by simp
  have cnt: "int (length (filter (\<lambda>n. n_email n = ''a@b.c'')
            (newcomers (db (conn (snd (register_all (service 3) ([ann, ann, ann] @ [ann]) ?rt)))))))
              = 3"
  proof -
    from inst have "int (length (filter (\<lambda>n. n_email n = ''a@b.c'')
            (newcomers (db (conn (snd (register_all (service 3) ([ann, ann, ann] @ [ann]) ?rt)))))))
              = max_newcomers_with_same_email (service 3)"
      by blast
    then show ?thesis unfolding m .
  qed
  have usr: "users (db (conn (snd (register_all (service 3) ([ann, ann, ann] @ [ann]) ?rt))))
               = users (db busy_world)"
  proof -
    from inst have "users (db (conn (snd (register_all (service 3) ([ann, ann, ann] @ [ann]) ?rt))))
               = users (db (conn ?rt))"
      by blast
    then show ?thesis by (simp del: register_all.simps append.simps)
  qed
  have ok: "list_all succeeded (fst (register_all (service 3) [ann, ann, ann] ?rt))"
    using inst by blast
  show ?thesis
    unfolding app using n us ns a m ok pattern lastr cnt total usr by blast
qed

lemma create_newcomer_success:
  assumes "create_newcomer self newcomer rt = (Inr created, rt1)"
  shows "created = \<lparr>newcomer_user_id = uuids (conn rt) (uuid4_calls (conn rt)),
                    newcomer_name = reg_name newcomer, newcomer_email = reg_email newcomer,
                    newcomer_created_at = clock (conn rt) (utc_now_calls (conn rt))\<rparr>"
    and "rt1 = \<lparr>conn = snd (insert_newcomer (conn rt) newcomer),
                events = events rt @ [Transaction]\<rparr>"
proof -
  have n: "1 \<le> n_transaction_retries self"
  proof (rule ccontr)
    assume "\<not> 1 \<le> n_transaction_retries self"
    then have "range_py (n_transaction_retries self) = []" by (simp add: range_py_empty)
    then show False
      using assms by (simp add: create_newcomer_def execute_serializable_transaction_def)
  qed
  have first: "create_newcomer self newcomer rt =
     (fst (create_newcomer_tx self (conn rt) newcomer),
      \<lparr>conn = snd (transaction (\<lambda>c. create_newcomer_tx self c newcomer) (conn rt)),
       events = events rt @ [Transaction]\<rparr>)"
    by (rule create_newcomer_first_attempt[OF n])
  then have ok: "fst (create_newcomer_tx self (conn rt) newcomer) = Inr created"
    using assms by simp
  then have tx: "create_newcomer_tx self (conn rt) newcomer = insert_newcomer (conn rt) newcomer"
    by (simp add: create_newcomer_tx_cases split: if_splits)
  have tr: "transaction (\<lambda>c. create_newcomer_tx self c newcomer) (conn rt)
              = insert_newcomer (conn rt) newcomer"
    by (simp add: transaction_def tx insert_newcomer_eq)
  show "created = \<lparr>newcomer_user_id = uuids (conn rt) (uuid4_calls (conn rt)),
                    newcomer_name = reg_name newcomer, newcomer_email = reg_email newcomer,
                    newcomer_created_at = clock (conn rt) (utc_now_calls (conn rt))\<rparr>"
    using ok tx by (simp add: insert_newcomer_eq)
  show "rt1 = \<lparr>conn = snd (insert_newcomer (conn rt) newcomer),
                events = events rt @ [Transaction]\<rparr>"
    using first assms tr by simp
qed

lemma paired_after_both:
  assumes "paired d" and "rt_user_id tok = n_user_id row"
  shows "paired (d\<lparr>newcomers := newcomers d @ [row],
                   registration_tokens := registration_tokens d @ [tok]\<rparr>)"
  using assms unfolding paired_def by simp

lemma unpaired_between:
  assumes "\<forall>t \<in> set (registration_tokens d). rt_user_id t \<noteq> n_user_id row"
  shows "\<not> paired (d\<lparr>newcomers := newcomers d @ [row]\<rparr>)"
  using assms unfolding paired_def by auto

lemma first_registration:
  "create_newcomer (service 3) ann start =
     (Inr \<lparr>newcomer_user_id = 7, newcomer_name = ''ann'', newcomer_email = ''a@b.c'',
            newcomer_created_at = 1000\<rparr>,
      \<lparr>conn = empty_world\<lparr>uuid4_calls := 1, utc_now_calls := 1,
               db := \<lparr>users = [], newcomers = [ann_row], registration_tokens = []\<rparr>\<rparr>,
       events = [Transaction]\<rparr>)"
proof -
  have n: "1 \<le> n_transaction_retries (service 3)" by (simp add: service_def)
  have u: "count_users_by_email (conn start) (reg_email ann) = 0"
    by (simp add: count_users_by_email_def start_def empty_world_def)
  have c: "count_newcomers_by_email (conn start) (reg_email ann)
             < max_newcomers_with_same_email (service 3)"
    by (simp add: count_newcomers_by_email_def start_def empty_world_def service_def)
  show ?thesis
    unfolding create_newcomer_accepts[OF n u c]
    by (simp add: insert_newcomer_eq start_def empty_world_def ann_def ann_row_def)
qed

text \<open>
  C1, as the code has it. A successful \<open>create_newcomer\<close> commits one newcomer row in
  its own transaction and leaves \<open>registration_tokens\<close> and \<open>users\<close> as they were.
  The token row is added afterwards by \<open>save_registration_token\<close>, a statement of its
  own that opens no transaction of the executor and leaves \<open>newcomers\<close> as it was.
  Every newcomer has its token and every token its newcomer after both calls, when
  that held before and the token carries the identifier of the created newcomer;
  between the two commits the new row has no token, unless a stored token already
  carried its identifier.
\<close>

theorem newcomer_and_token_are_committed_separately:
  assumes "create_newcomer self newcomer rt = (Inr created, rt1)"
  shows "newcomers (db (conn rt1)) = newcomers (db (conn rt)) @
           [\<lparr>n_user_id = newcomer_user_id created, n_name = reg_name newcomer,
             n_email = reg_email newcomer, n_password = reg_password newcomer,
             n_created_at = newcomer_created_at created\<rparr>]
         \<and> registration_tokens (db (conn rt1)) = registration_tokens (db (conn rt))
         \<and> users (db (conn rt1)) = users (db (conn rt))
         \<and> newcomers (db (conn (save_registration_token tok rt1))) = newcomers (db (conn rt1))
         \<and> registration_tokens (db (conn (save_registration_token tok rt1))) =
             registration_tokens (db (conn rt1)) @ [tok]
         \<and> events (save_registration_token tok rt1) = events rt @ [Transaction]
         \<and> (paired (db (conn rt)) \<and> rt_user_id tok = newcomer_user_id created \<longrightarrow>
              paired (db (conn (save_registration_token tok rt1))))
         \<and> ((\<forall>t \<in> set (registration_tokens (db (conn rt))).
                 rt_user_id t \<noteq> newcomer_user_id created) \<longrightarrow>
              \<not> paired (db (conn rt1)))"
proof -
  note s = create_newcomer_success[OF assms]
  let ?row = "\<lparr>n_user_id = newcomer_user_id created, n_name = reg_name newcomer,
             n_email = reg_email newcomer, n_password = reg_password newcomer,
             n_created_at = newcomer_created_at created\<rparr>"
  have d1: "db (conn rt1) = (db (conn rt))\<lparr>newcomers := newcomers (db (conn rt)) @ [?row]\<rparr>"
    by (simp add: s insert_newcomer_eq)
  have d2: "db (conn (save_registration_token tok rt1)) =
              (db (conn rt))\<lparr>newcomers := newcomers (db (conn rt)) @ [?row],
                   registration_tokens := registration_tokens (db (conn rt)) @ [tok]\<rparr>"
    by (simp add: save_registration_token_def d1)
  have ev: "events (save_registration_token tok rt1) = events rt @ [Transaction]"
    by (simp add: save_registration_token_def s)
  have p: "paired (db (conn rt)) \<and> rt_user_id tok = newcomer_user_id created \<longrightarrow>
              paired (db (conn (save_registration_token tok rt1)))"
    unfolding d2 using paired_after_both[of "db (conn rt)" tok ?row] by simp
  have q: "(\<forall>t \<in> set (registration_tokens (db (conn rt))).
                 rt_user_id t \<noteq> newcomer_user_id created) \<longrightarrow>
              \<not> paired (db (conn rt1))"
    unfolding d1 using unpaired_between[of "db (conn rt)" ?row] by simp
  show ?thesis using p q ev by (simp add: d1 d2)
qed

text \<open>
  The state committed by the first registration on empty tables: Ann's row is in
  \<open>newcomers\<close> and \<open>registration_tokens\<close> is empty.
\<close>

theorem newcomer_committed_without_token_counterexample:
  "fst (create_newcomer (service 3) ann start) =
     Inr \<lparr>newcomer_user_id = 7, newcomer_name = ''ann'', newcomer_email = ''a@b.c'',
           newcomer_created_at = 1000\<rparr>
   \<and> newcomers (db (conn (snd (create_newcomer (service 3) ann start)))) = [ann_row]
   \<and> registration_tokens (db (conn (snd (create_newcomer (service 3) ann start)))) = []
   \<and> \<not> paired (db (conn (snd (create_newcomer (service 3) ann start))))"
  by (simp add: first_registration paired_def)

theorem newcomer_and_token_are_committed_separately_witness:
  "create_newcomer (service 3) ann start =
     (Inr \<lparr>newcomer_user_id = 7, newcomer_name = ''ann'', newcomer_email = ''a@b.c'',
            newcomer_created_at = 1000\<rparr>,
      \<lparr>conn = empty_world\<lparr>uuid4_calls := 1, utc_now_calls := 1,
               db := \<lparr>users = [], newcomers = [ann_row], registration_tokens = []\<rparr>\<rparr>,
       events = [Transaction]\<rparr>)
   \<and> paired (db (conn start))
   \<and> rt_user_id (ann_token 5000) = 7
   \<and> registration_tokens (db (conn start)) = []
   \<and> registration_tokens (db (conn (save_registration_token (ann_token 5000)
         (snd (create_newcomer (service 3) ann start))))) = [ann_token 5000]
   \<and> newcomers (db (conn (save_registration_token (ann_token 5000)
         (snd (create_newcomer (service 3) ann start))))) = [ann_row]
   \<and> paired (db (conn (save_registration_token (ann_token 5000)
         (snd (create_newcomer (service 3) ann start)))))"
proof -
  let ?rt1 = "\<lparr>conn = empty_world\<lparr>uuid4_calls := 1, utc_now_calls := 1,
               db := \<lparr>users = [], newcomers = [ann_row], registration_tokens = []\<rparr>\<rparr>,
       events = [Transaction] :: real event list\<rparr>"
  have p0: "paired (db (conn start))" by (simp add: paired_def start_def empty_world_def)
  have t: "rt_user_id (ann_token 5000) = 7" by (simp add: ann_token_def)
  have t0: "registration_tokens (db (conn start)) = []" by (simp add: start_def empty_world_def)
  note inst = newcomer_and_token_are_committed_separately
      [of "service 3" ann start _ ?rt1 "ann_token 5000", OF first_registration]
  show ?thesis
    using inst p0 t t0 by (simp add: first_registration)
qed

subsection \<open>What a verification with a valid token does\<close>

text \<open>
  When the lookup finds a row, the unit of work stops at \<open>newcomer.email\<close>: it has
  read the clock once, and it raises \<open>AttributeError\<close> before it counts the verified
  accounts or reaches the insert.
\<close>

lemma found_token_raises_attribute_error:
  assumes "token_rows (db w) tok (clock w (utc_now_calls w)) \<noteq> []"
  shows "verify_newcomer_tx w tok =
           (Inl AttributeError, w\<lparr>utc_now_calls := Suc (utc_now_calls w)\<rparr>)"
  using assms
  by (simp add: verify_newcomer_tx_def get_newcomer_by_token_def utc_now_def
      record_attribute_def split: list.splits)

text \<open>So no call of the unit of work, and no call of \<open>verify_newcomer\<close>, returns a user.\<close>

lemma verify_newcomer_tx_never_succeeds: "\<not> succeeded (fst (verify_newcomer_tx w tok))"
  by (simp add: verify_newcomer_tx_def record_attribute_def split: prod.splits option.splits)

lemma verify_newcomer_never_succeeds: "\<not> succeeded (fst (verify_newcomer self tok rt))"
proof (cases "1 \<le> n_transaction_retries self")
  case True
  then show ?thesis
    by (simp add: verify_newcomer_first_attempt verify_newcomer_tx_never_succeeds)
next
  case False
  then have "range_py (n_transaction_retries self) = []" by (simp add: range_py_empty)
  then show ?thesis
    by (simp add: verify_newcomer_def execute_serializable_transaction_def)
qed

lemma valid_token_example:
  "verify_newcomer (service 1) ''tok'' \<lparr>conn = pending_world 5000, events = []\<rparr> =
     (Inl AttributeError,
      \<lparr>conn = (pending_world 5000)\<lparr>utc_now_calls := 1\<rparr>, events = [Transaction]\<rparr>)"
proof -
  have n: "1 \<le> n_transaction_retries (service 1)" by (simp add: service_def)
  have rows: "token_rows (db (pending_world 5000)) ''tok''
                (clock (pending_world 5000) (utc_now_calls (pending_world 5000))) \<noteq> []"
    by (simp add: token_rows_def pending_world_def ann_row_def ann_token_def)
  have tx: "verify_newcomer_tx (pending_world 5000) ''tok'' =
              (Inl AttributeError, (pending_world 5000)\<lparr>utc_now_calls := 1\<rparr>)"
    using found_token_raises_attribute_error[OF rows] by (simp add: pending_world_def)
  have d: "(pending_world 5000)\<lparr>utc_now_calls := 1, db := db (pending_world 5000)\<rparr> =
             (pending_world 5000)\<lparr>utc_now_calls := 1\<rparr>"
    by (simp add: pending_world_def)
  show ?thesis
    using transaction_error[where body="\<lambda>c. verify_newcomer_tx c ''tok''", OF tx]
    by (simp add: verify_newcomer_first_attempt[OF n] tx d)
qed

text \<open>
  The statement of the insert, which is not reached: it has five parameters, and its
  columns \<open>created_at\<close>, \<open>verified_at\<close> and \<open>role\<close> all read parameter 5, so that a
  sixth and a seventh argument reach no column.
\<close>

lemma n_parameters_users: "n_parameters insert_users_values = 5"
  by (simp add: n_parameters_def insert_users_values_def)

lemma insert_user_seven: "insert_user w [a, b, c, d, e, f, g] = (Inl DriverError, w)"
  by (simp add: insert_user_def n_parameters_users)

lemma insert_users_reads_parameter_five_thrice:
  "bind_values insert_users_values [a, b, c, d, e, f, g] =
     [(T_UUID, a), (T_VARCHAR, b), (T_VARCHAR, c), (T_VARCHAR, d),
      (T_TIMESTAMP, e), (T_TIMESTAMP, e), (T_VARCHAR, e)]"
  by (simp add: bind_values_def insert_users_values_def)

text \<open>
  C7. When every stored token row carrying the presented string (there may be none)
  expires at or before the time read for the lookup, the unit of work raises
  \<open>TokenNotFound\<close> having only read the clock; through \<open>verify_newcomer\<close>, with at
  least one attempt configured, the caller gets \<open>TokenNotFound\<close> after a single
  transaction and all three tables are as before.
\<close>

theorem unknown_or_expired_token_is_not_found:
  assumes "\<forall>t \<in> set (registration_tokens (db (conn rt))).
             token t = tok \<longrightarrow> expired_at t \<le> clock (conn rt) (utc_now_calls (conn rt))"
  shows "verify_newcomer_tx (conn rt) tok =
           (Inl TokenNotFound, (conn rt)\<lparr>utc_now_calls := Suc (utc_now_calls (conn rt))\<rparr>)
         \<and> (1 \<le> n_transaction_retries self \<longrightarrow>
              fst (verify_newcomer self tok rt) = Inl TokenNotFound
              \<and> db (conn (snd (verify_newcomer self tok rt))) = db (conn rt)
              \<and> events (snd (verify_newcomer self tok rt)) = events rt @ [Transaction])"
proof -
  have rows: "token_rows (db (conn rt)) tok (clock (conn rt) (utc_now_calls (conn rt))) = []"
    using assms by (rule token_rows_empty)
  have tx: "verify_newcomer_tx (conn rt) tok =
           (Inl TokenNotFound, (conn rt)\<lparr>utc_now_calls := Suc (utc_now_calls (conn rt))\<rparr>)"
    by (simp add: verify_newcomer_tx_def get_newcomer_by_token_def utc_now_def rows)
  show ?thesis
    using tx transaction_error[where body="\<lambda>c. verify_newcomer_tx c tok", OF tx]
    by (simp add: verify_newcomer_first_attempt)
qed

theorem unknown_or_expired_token_is_not_found_witness:
  "registration_tokens (db (pending_world 1500)) = [ann_token 1500]
   \<and> expired_at (ann_token 1500) \<le> clock (pending_world 1500) (utc_now_calls (pending_world 1500))
   \<and> verify_newcomer_tx (pending_world 1500) ''tok'' =
        (Inl TokenNotFound, (pending_world 1500)\<lparr>utc_now_calls := 1\<rparr>)
   \<and> 1 \<le> n_transaction_retries (service 1)
   \<and> fst (verify_newcomer (service 1) ''tok'' \<lparr>conn = pending_world 1500, events = []\<rparr>)
        = Inl TokenNotFound
   \<and> db (conn (snd (verify_newcomer (service 1) ''tok''
                      \<lparr>conn = pending_world 1500, events = []\<rparr>)))
        = \<lparr>users = [], newcomers = [ann_row], registration_tokens = [ann_token 1500]\<rparr>"
proof -
  have t: "registration_tokens (db (pending_world 1500)) = [ann_token 1500]"
    by (simp add: pending_world_def)
  have e: "expired_at (ann_token 1500) \<le> clock (pending_world 1500) (utc_now_calls (pending_world 1500))"
    by (simp add: pending_world_def ann_token_def)
  have h: "\<forall>t \<in> set (registration_tokens (db (conn \<lparr>conn = pending_world 1500, events = []::real event list\<rparr>))).
             token t = ''tok'' \<longrightarrow>
             expired_at t \<le> clock (conn \<lparr>conn = pending_world 1500, events = []::real event list\<rparr>)
                               (utc_now_calls (conn \<lparr>conn = pending_world 1500, events = []::real event list\<rparr>))"
    using t e by simp
  have n: "1 \<le> n_transaction_retries (service 1)" by (simp add: service_def)
  have c: "utc_now_calls (pending_world 1500) = 0" by (simp add: pending_world_def)
  have d: "db (pending_world 1500) =
             \<lparr>users = [], newcomers = [ann_row], registration_tokens = [ann_token 1500]\<rparr>"
    by (simp add: pending_world_def)
  show ?thesis
    using unknown_or_expired_token_is_not_found
      [of "\<lparr>conn = pending_world 1500, events = []\<rparr>" "''tok''" "service 1", OF h] t e n
    by (simp add: c d)
qed

text \<open>
  C10. The lookup keeps a token row only when its \<open>expired_at\<close> is strictly later
  than the time read for the lookup. So when every row carrying the presented string
  expires exactly at that time, the lookup finds nothing and the verification raises
  \<open>TokenNotFound\<close>: a token can be used before its expiration instant, not at it.
\<close>

theorem token_expiry_is_strict:
  assumes "\<forall>t \<in> set (registration_tokens (db (conn rt))).
             token t = tok \<longrightarrow> expired_at t = clock (conn rt) (utc_now_calls (conn rt))"
  shows "fst (get_newcomer_by_token (conn rt) tok) = None
         \<and> fst (verify_newcomer_tx (conn rt) tok) = Inl TokenNotFound
         \<and> (1 \<le> n_transaction_retries self \<longrightarrow>
              fst (verify_newcomer self tok rt) = Inl TokenNotFound)
         \<and> ((n, t) \<in> set (token_rows d tok now) \<longleftrightarrow>
              n \<in> set (newcomers d) \<and> t \<in> set (registration_tokens d)
              \<and> n_user_id n = rt_user_id t \<and> token t = tok \<and> now < expired_at t)"
proof -
  have "\<forall>t \<in> set (registration_tokens (db (conn rt))).
             token t = tok \<longrightarrow> expired_at t \<le> clock (conn rt) (utc_now_calls (conn rt))"
    using assms by auto
  then have rows: "token_rows (db (conn rt)) tok (clock (conn rt) (utc_now_calls (conn rt))) = []"
    by (rule token_rows_empty)
  have look: "fst (get_newcomer_by_token (conn rt) tok) = None"
    by (simp add: get_newcomer_by_token_def utc_now_def rows)
  have tx: "fst (verify_newcomer_tx (conn rt) tok) = Inl TokenNotFound"
    by (simp add: verify_newcomer_tx_not_found[OF rows])
  show ?thesis
    using look tx by (simp add: verify_newcomer_first_attempt token_rows_member)
qed

theorem token_expiry_is_strict_witness:
  "registration_tokens (db (pending_world 2000)) = [ann_token 2000]
   \<and> expired_at (ann_token 2000) = clock (pending_world 2000) (utc_now_calls (pending_world 2000))
   \<and> fst (get_newcomer_by_token (pending_world 2000) ''tok'') = None
   \<and> fst (verify_newcomer_tx (pending_world 2000) ''tok'') = Inl TokenNotFound
   \<and> 1 \<le> n_transaction_retries (service 1)
   \<and> fst (verify_newcomer (service 1) ''tok'' \<lparr>conn = pending_world 2000, events = []\<rparr>)
        = Inl TokenNotFound
   \<and> fst (get_newcomer_by_token (pending_world 2001) ''tok'') = Some (ann_row, ann_token 2001)"
proof -
  have t: "registration_tokens (db (pending_world 2000)) = [ann_token 2000]"
    by (simp add: pending_world_def)
  have e: "expired_at (ann_token 2000) = clock (pending_world 2000) (utc_now_calls (pending_world 2000))"
    by (simp add: pending_world_def ann_token_def)
  have h: "\<forall>t \<in> set (registration_tokens (db (conn \<lparr>conn = pending_world 2000, events = []::real event list\<rparr>))).
             token t = ''tok'' \<longrightarrow>
             expired_at t = clock (conn \<lparr>conn = pending_world 2000, events = []::real event list\<rparr>)
                               (utc_now_calls (conn \<lparr>conn = pending_world 2000, events = []::real event list\<rparr>))"
    using t e by simp
  have n: "1 \<le> n_transaction_retries (service 1)" by (simp add: service_def)
  have later: "fst (get_newcomer_by_token (pending_world 2001) ''tok'') = Some (ann_row, ann_token 2001)"
    by (simp add: get_newcomer_by_token_def utc_now_def token_rows_def pending_world_def
        ann_row_def ann_token_def)
  show ?thesis
    using token_expiry_is_strict
      [of "\<lparr>conn = pending_world 2000, events = []\<rparr>" "''tok''" "service 1", OF h] t e n later
    by simp
qed

section \<open>Properties of the user endpoint\<close>

text \<open>
  C8. For a caller whose role is not admin the endpoint answers not-found whatever the
  lookup of the requested identifier would give: two runs that differ only in the
  stored users give the same answer, and the answer is never the forbidden one.
\<close>

theorem non_admin_gets_not_found:
  assumes "role request_user \<noteq> admin"
  shows "get_user lookup uid request_user = Inl NotFoundException
         \<and> get_user lookup uid request_user = get_user lookup' uid request_user
         \<and> get_user lookup uid request_user \<noteq> Inl ForbiddenException"
  using assms by (simp add: get_user_def)

theorem non_admin_gets_not_found_witness:
  "role plain_user \<noteq> admin
   \<and> lookup_admin 1 = Inr admin_user
   \<and> lookup_none 1 = Inl UserNotExists
   \<and> get_user lookup_admin 1 plain_user = Inl NotFoundException
   \<and> get_user lookup_none 1 plain_user = Inl NotFoundException"
proof -
  have r: "role plain_user \<noteq> admin" by (simp add: plain_user_def)
  show ?thesis
    using non_admin_gets_not_found [of plain_user lookup_admin 1 lookup_none, OF r]
      non_admin_gets_not_found [of plain_user lookup_none 1 lookup_admin, OF r] r
    by (simp add: lookup_admin_def lookup_none_def)
qed

end
